theory Spec2Isabelle
  imports Main "HOL-Library.Word" "HOL-Library.Signed_Division"
begin

unbundle bit_operations_syntax

section \<open>The NTP packet (protocol/ntp/packet.go)\<close>

text \<open>
  Go's fixed-width integers are machine words: \<open>uint8\<close> and \<open>int8\<close> are \<open>8 word\<close>
  (an \<open>int8\<close> is read with \<open>sint\<close>), \<open>uint32\<close> is \<open>32 word\<close>, \<open>int64\<close> and
  \<open>uint64\<close> are \<open>64 word\<close>. A \<open>[]byte\<close> is a list of \<open>8 word\<close>.
\<close>

type_synonym byte = "8 word"

definition NTPPacketSizeBytes :: nat where
  "NTPPacketSizeBytes = 48"

definition ControlHeaderSizeBytes :: nat where
  "ControlHeaderSizeBytes = 32"

record Packet =
  Settings :: "8 word"
  Stratum :: "8 word"
  Poll :: "8 word"
  Precision :: "8 word"
  RootDelay :: "32 word"
  RootDispersion :: "32 word"
  ReferenceID :: "32 word"
  RefTimeSec :: "32 word"
  RefTimeFrac :: "32 word"
  OrigTimeSec :: "32 word"
  OrigTimeFrac :: "32 word"
  RxTimeSec :: "32 word"
  RxTimeFrac :: "32 word"
  TxTimeSec :: "32 word"
  TxTimeFrac :: "32 word"

text \<open>The value of \<open>&Packet{}\<close>: every field is zero.\<close>

definition zero_Packet :: Packet where
  "zero_Packet = \<lparr>Settings = 0, Stratum = 0, Poll = 0, Precision = 0,
     RootDelay = 0, RootDispersion = 0, ReferenceID = 0,
     RefTimeSec = 0, RefTimeFrac = 0, OrigTimeSec = 0, OrigTimeFrac = 0,
     RxTimeSec = 0, RxTimeFrac = 0, TxTimeSec = 0, TxTimeFrac = 0\<rparr>"

definition liNoWarning :: "8 word" where "liNoWarning = 0"
definition liAlarmCondition :: "8 word" where "liAlarmCondition = 3"
definition vnFirst :: "8 word" where "vnFirst = 1"
definition vnLast :: "8 word" where "vnLast = 4"
definition modeClient :: "8 word" where "modeClient = 3"

subsection \<open>ValidSettingsFormat\<close>

text \<open>
  The shifts are on \<open>uint8\<close>: \<open>settings << 2\<close> drops the bits shifted past bit 7,
  which \<open>push_bit\<close> on \<open>8 word\<close> does as well.
\<close>

definition ValidSettingsFormat :: "Packet \<Rightarrow> bool" where
  "ValidSettingsFormat p =
     (let settings = Settings p;
          l = drop_bit 6 settings;
          v = drop_bit 5 (push_bit 2 settings);
          m = drop_bit 5 (push_bit 5 settings)
      in if l = liNoWarning \<or> l = liAlarmCondition then
           if v \<ge> vnFirst \<and> v \<le> vnLast then
             if m = modeClient then True else False
           else False
         else False)"

text \<open>
  The three sub-fields as the specification names them, by bit position:
  leap indicator = bits 7-6, version = bits 5-3, mode = bits 2-0.
\<close>

definition spec_leap :: "8 word \<Rightarrow> nat" where
  "spec_leap s = (unat s div 64) mod 4"

definition spec_version :: "8 word \<Rightarrow> nat" where
  "spec_version s = (unat s div 8) mod 8"

definition spec_mode :: "8 word \<Rightarrow> nat" where
  "spec_mode s = unat s mod 8"


section \<open>Errors\<close>

text \<open>
  The error values the functions of this file can return: \<open>io.EOF\<close> and
  \<open>io.ErrUnexpectedEOF\<close> from \<open>io.ReadFull\<close>, the error of \<open>encoding/binary\<close> for
  a type that is not fixed-size, and an operating-system error (from \<open>connFd\<close>,
  \<open>ReadFromUDP\<close> or \<open>Recvmsg\<close>) with its number. Go's \<open>nil\<close> error is \<open>None\<close>.
\<close>

datatype error = EOF | ErrUnexpectedEOF | ErrInvalidType | OSError nat

section \<open>encoding/binary, as far as a Packet uses it\<close>

text \<open>
  The kinds of the fields a struct may have. \<open>Uint8\<close>, \<open>Int8\<close> and \<open>Uint32\<close> are
  the kinds of the Packet's fields; \<open>String\<close> stands for the kinds that have no fixed
  size for \<open>encoding/binary\<close>, where \<open>sizeof\<close> answers \<open>-1\<close>.
\<close>

datatype kind = Uint8 | Int8 | Uint32 | String

fun sizeof :: "kind \<Rightarrow> int" where
  "sizeof Uint8 = 1"
| "sizeof Int8 = 1"
| "sizeof Uint32 = 4"
| "sizeof String = - 1"

text \<open>The loop of \<open>sizeof\<close> over the fields of a struct, \<open>acc\<close> being its running sum.\<close>

fun sizeof_fields :: "int \<Rightarrow> kind list \<Rightarrow> int" where
  "sizeof_fields acc [] = acc"
| "sizeof_fields acc (k # ks) =
     (let s = sizeof k in if s < 0 then - 1 else sizeof_fields (acc + s) ks)"

definition dataSize :: "kind list \<Rightarrow> int" where
  "dataSize ks = sizeof_fields 0 ks"

definition Packet_kinds :: "kind list" where
  "Packet_kinds = [Uint8, Uint8, Int8, Int8, Uint32, Uint32, Uint32,
     Uint32, Uint32, Uint32, Uint32, Uint32, Uint32, Uint32, Uint32]"

subsection \<open>Big-endian byte order\<close>

text \<open>
  \<open>BigEndian.PutUint32\<close>: \<open>b[0] = byte(v >> 24)\<close>, \<open>b[1] = byte(v >> 16)\<close>,
  \<open>b[2] = byte(v >> 8)\<close>, \<open>b[3] = byte(v)\<close>; \<open>BigEndian.Uint32\<close> is
  \<open>uint32(b[3]) | uint32(b[2])<<8 | uint32(b[1])<<16 | uint32(b[0])<<24\<close>.
\<close>

definition BigEndian_PutUint32 :: "32 word \<Rightarrow> byte list" where
  "BigEndian_PutUint32 v =
     [ucast (drop_bit 24 v), ucast (drop_bit 16 v), ucast (drop_bit 8 v), ucast v]"

definition BigEndian_Uint32 :: "byte list \<Rightarrow> 32 word" where
  "BigEndian_Uint32 b =
     ucast (b ! 3) OR push_bit 8 (ucast (b ! 2)) OR push_bit 16 (ucast (b ! 1))
       OR push_bit 24 (ucast (b ! 0))"

subsection \<open>The encoder\<close>

definition e_uint8 :: "8 word \<Rightarrow> byte list" where
  "e_uint8 x = [x]"

text \<open>\<open>e.int8(x)\<close> is \<open>e.uint8(uint8(x))\<close>: the conversion keeps the eight bits.\<close>

definition e_int8 :: "8 word \<Rightarrow> byte list" where
  "e_int8 x = e_uint8 x"

definition e_uint32 :: "32 word \<Rightarrow> byte list" where
  "e_uint32 x = BigEndian_PutUint32 x"

text \<open>\<open>e.value\<close> on a Packet: the fields in the order of their declaration.\<close>

definition encoder_value :: "Packet \<Rightarrow> byte list" where
  "encoder_value p =
     e_uint8 (Settings p) @ e_uint8 (Stratum p) @ e_int8 (Poll p) @ e_int8 (Precision p)
     @ e_uint32 (RootDelay p) @ e_uint32 (RootDispersion p) @ e_uint32 (ReferenceID p)
     @ e_uint32 (RefTimeSec p) @ e_uint32 (RefTimeFrac p)
     @ e_uint32 (OrigTimeSec p) @ e_uint32 (OrigTimeFrac p)
     @ e_uint32 (RxTimeSec p) @ e_uint32 (RxTimeFrac p)
     @ e_uint32 (TxTimeSec p) @ e_uint32 (TxTimeFrac p)"

text \<open>
  \<open>bytes.Buffer.Write\<close> appends to the buffer, which grows as needed, and returns a
  \<open>nil\<close> error.
\<close>

definition Buffer_Write :: "byte list \<Rightarrow> byte list \<Rightarrow> byte list \<times> error option" where
  "Buffer_Write w p = (w @ p, None)"

text \<open>
  \<open>binary.Write(&bytes, binary.BigEndian, p)\<close>: the size of the data is computed first,
  and a type that is not fixed-size is refused before anything is written.
\<close>

definition binary_Write :: "byte list \<Rightarrow> Packet \<Rightarrow> byte list \<times> error option" where
  "binary_Write w p =
     (let sz = dataSize Packet_kinds in
      if sz < 0 then (w, Some ErrInvalidType)
      else Buffer_Write w (encoder_value p))"

subsection \<open>The decoder\<close>

text \<open>
  The decoder reads its buffer at an offset that each read moves on; the model keeps
  the bytes from the offset on, and a read returns the value and the bytes after it.
\<close>

definition d_uint8 :: "byte list \<Rightarrow> 8 word \<times> byte list" where
  "d_uint8 b = (b ! 0, drop 1 b)"

definition d_int8 :: "byte list \<Rightarrow> 8 word \<times> byte list" where
  "d_int8 b = d_uint8 b"

definition d_uint32 :: "byte list \<Rightarrow> 32 word \<times> byte list" where
  "d_uint32 b = (BigEndian_Uint32 (take 4 b), drop 4 b)"

definition decoder_value :: "byte list \<Rightarrow> Packet" where
  "decoder_value b0 =
     (let (settings, b1) = d_uint8 b0;
          (stratum, b2) = d_uint8 b1;
          (poll, b3) = d_int8 b2;
          (precision, b4) = d_int8 b3;
          (rootDelay, b5) = d_uint32 b4;
          (rootDispersion, b6) = d_uint32 b5;
          (referenceID, b7) = d_uint32 b6;
          (refTimeSec, b8) = d_uint32 b7;
          (refTimeFrac, b9) = d_uint32 b8;
          (origTimeSec, b10) = d_uint32 b9;
          (origTimeFrac, b11) = d_uint32 b10;
          (rxTimeSec, b12) = d_uint32 b11;
          (rxTimeFrac, b13) = d_uint32 b12;
          (txTimeSec, b14) = d_uint32 b13;
          (txTimeFrac, b15) = d_uint32 b14
      in \<lparr>Settings = settings, Stratum = stratum, Poll = poll, Precision = precision,
           RootDelay = rootDelay, RootDispersion = rootDispersion,
           ReferenceID = referenceID,
           RefTimeSec = refTimeSec, RefTimeFrac = refTimeFrac,
           OrigTimeSec = origTimeSec, OrigTimeFrac = origTimeFrac,
           RxTimeSec = rxTimeSec, RxTimeFrac = rxTimeFrac,
           TxTimeSec = txTimeSec, TxTimeFrac = txTimeFrac\<rparr>)"

text \<open>
  \<open>io.ReadFull\<close> on a \<open>bytes.Reader\<close> over \<open>r\<close>: the first \<open>n\<close> bytes when there
  are that many, \<open>io.EOF\<close> when nothing could be read, \<open>io.ErrUnexpectedEOF\<close> when
  the reader ended early.
\<close>

definition io_ReadFull :: "byte list \<Rightarrow> nat \<Rightarrow> error + byte list" where
  "io_ReadFull r n =
     (if n \<le> length r then Inr (take n r)
      else if length r = 0 then Inl EOF
      else Inl ErrUnexpectedEOF)"

text \<open>
  \<open>binary.Read(reader, binary.BigEndian, packet)\<close>: the whole encoded size is read
  before a field is set, so on an error \<open>packet\<close> is what it was.
\<close>

definition binary_Read :: "byte list \<Rightarrow> Packet \<Rightarrow> Packet \<times> error option" where
  "binary_Read r packet =
     (let sz = dataSize Packet_kinds in
      if sz < 0 then (packet, Some ErrInvalidType)
      else case io_ReadFull r (nat sz) of
             Inl err \<Rightarrow> (packet, Some err)
           | Inr buf \<Rightarrow> (decoder_value buf, None))"

section \<open>Bytes and BytesToPacket\<close>

definition Bytes :: "Packet \<Rightarrow> byte list \<times> error option" where
  "Bytes p = (let (bytes, err) = binary_Write [] p in (bytes, err))"

text \<open>The returned pointer is never \<open>nil\<close>: it is the address of the local \<open>Packet{}\<close>.\<close>

definition BytesToPacket :: "byte list \<Rightarrow> Packet option \<times> error option" where
  "BytesToPacket ntpPacketBytes =
     (let packet = zero_Packet;
          (packet', err) = binary_Read ntpPacketBytes packet
      in (Some packet', err))"


section \<open>The receive buffers\<close>

text \<open>\<open>make([]byte, n)\<close>: \<open>n\<close> zero bytes.\<close>

definition make_bytes :: "nat \<Rightarrow> byte list" where
  "make_bytes n = replicate n 0"

text \<open>
  What a receive leaves in a buffer it was given: the bytes delivered overwrite the
  buffer from its start, cut off at the buffer's length, and the rest of the buffer
  is as it was.
\<close>

definition received_into :: "byte list \<Rightarrow> byte list \<Rightarrow> byte list" where
  "received_into buf delivered = take (length buf) delivered @ drop (length delivered) buf"

section \<open>ReadNTPPacket\<close>

text \<open>
  The socket is the environment of the call. \<open>conn.ReadFromUDP(buf)\<close> either fails
  or delivers one datagram and the address of its sender; the argument \<open>recv\<close> is
  that outcome.
\<close>

definition ReadFromUDP ::
  "error + byte list \<times> 'addr \<Rightarrow> byte list \<Rightarrow> byte list \<times> 'addr option \<times> error option" where
  "ReadFromUDP recv buf =
     (case recv of
        Inl err \<Rightarrow> (buf, None, Some err)
      | Inr (datagram, addr) \<Rightarrow> (received_into buf datagram, Some addr, None))"

definition ReadNTPPacket ::
  "error + byte list \<times> 'addr \<Rightarrow> Packet option \<times> 'addr option \<times> error option" where
  "ReadNTPPacket recv =
     (let buf = make_bytes NTPPacketSizeBytes;
          (buf', remAddr, err) = ReadFromUDP recv buf
      in if err \<noteq> None then (None, None, err)
         else let (ntp, err') = BytesToPacket buf' in (ntp, remAddr, err'))"

section \<open>time.Time and the kernel's timespec\<close>

text \<open>
  A \<open>time.Time\<close> is the struct \<open>{wall uint64; ext int64; loc *Location}\<close>; the only
  location this file meets is \<open>time.Local\<close>. \<open>time.Time{}\<close> has every field zero.
\<close>

datatype Location = Local

record Time =
  wall :: "64 word"
  ext :: "64 word"
  loc :: "Location option"

definition zero_Time :: Time where
  "zero_Time = \<lparr>wall = 0, ext = 0, loc = None\<rparr>"

definition unixToInternal :: "64 word" where
  "unixToInternal = (1969 * 365 + 1969 div 4 - 1969 div 100 + 1969 div 400) * 86400"

text \<open>
  \<open>unixTime(sec int64, nsec int32)\<close> is \<open>Time{uint64(nsec), sec + unixToInternal, Local}\<close>;
  the conversion of an \<open>int32\<close> to \<open>uint64\<close> extends the sign.
\<close>

definition unixTime :: "64 word \<Rightarrow> 32 word \<Rightarrow> Time" where
  "unixTime sec nsec = \<lparr>wall = scast nsec, ext = sec + unixToInternal, loc = Some Local\<rparr>"

text \<open>
  \<open>time.Unix(sec, nsec int64)\<close>. The arithmetic is on \<open>int64\<close>: it wraps, the
  comparisons are signed, and \<open>/\<close> truncates towards zero.
\<close>

definition time_Unix :: "64 word \<Rightarrow> 64 word \<Rightarrow> Time" where
  "time_Unix sec nsec =
     (if sint nsec < 0 \<or> sint nsec \<ge> 1000000000 then
        (let n = (word_of_int (sint nsec sdiv 1000000000) :: 64 word);
             sec1 = sec + n;
             nsec1 = nsec - n * 1000000000
         in if sint nsec1 < 0 then unixTime (sec1 - 1) (ucast (nsec1 + 1000000000))
            else unixTime sec1 (ucast nsec1))
      else unixTime sec (ucast nsec))"

text \<open>\<open>syscall.Timespec\<close> on linux/amd64: \<open>{Sec int64; Nsec int64}\<close>, 16 bytes.\<close>

record Timespec =
  Sec :: "64 word"
  Nsec :: "64 word"

definition SizeofTimespec :: nat where
  "SizeofTimespec = 16"

definition Timespec_Unix :: "Timespec \<Rightarrow> 64 word \<times> 64 word" where
  "Timespec_Unix ts = (Sec ts, Nsec ts)"

text \<open>
  The control-message framing of \<open>golang.org/x/sys/unix\<close> on linux/amd64, where a
  pointer has 8 bytes and a \<open>Cmsghdr\<close> 16:
  \<open>cmsgAlignOf(salen) = (salen + salign - 1) & (^salign + 1)\<close> and
  \<open>CmsgSpace(datalen) = cmsgAlignOf(SizeofCmsghdr) + cmsgAlignOf(datalen)\<close>.
\<close>

definition SizeofPtr :: int where
  "SizeofPtr = 8"

definition SizeofCmsghdr :: int where
  "SizeofCmsghdr = 16"

definition cmsgAlignOf :: "int \<Rightarrow> int" where
  "cmsgAlignOf salen = (let salign = SizeofPtr in (salen + salign - 1) AND (NOT salign + 1))"

definition CmsgSpace :: "int \<Rightarrow> int" where
  "CmsgSpace datalen = cmsgAlignOf SizeofCmsghdr + cmsgAlignOf datalen"

text \<open>
  \<open>(*syscall.Timespec)(unsafe.Pointer(&oob[i]))\<close>: the sixteen bytes of \<open>oob\<close> from
  index \<open>i\<close> on, read as two \<open>int64\<close> in the byte order of the machine, which on
  amd64 is little-endian. No length is compared with anything here.
\<close>

definition le_int64 :: "byte list \<Rightarrow> 64 word" where
  "le_int64 b = word_rcat (rev b)"

definition Timespec_at :: "byte list \<Rightarrow> nat \<Rightarrow> Timespec" where
  "Timespec_at oob i =
     \<lparr>Sec = le_int64 (take 8 (drop i oob)), Nsec = le_int64 (take 8 (drop (i + 8) oob))\<rparr>"

section \<open>ReadPacketWithKernelTimestamp\<close>

text \<open>
  The environment of the call: \<open>fd\<close> is the outcome of \<open>connFd(conn)\<close>; \<open>recvmsg\<close>
  is the outcome of the \<open>recvmsg\<close> system call on the descriptor, either an error or
  the datagram, the control data and the socket address that the kernel delivers;
  \<open>sockaddrToUDP\<close> is the conversion of the socket address, which answers \<open>nil\<close>
  for an address family it does not know. The lengths and the flags that
  \<open>syscall.Recvmsg\<close> returns as well are discarded by the caller and left out.
\<close>

definition Recvmsg ::
  "error + byte list \<times> byte list \<times> 'sa \<Rightarrow> int \<Rightarrow> byte list \<Rightarrow> byte list
     \<Rightarrow> error + byte list \<times> byte list \<times> 'sa" where
  "Recvmsg recvmsg connfd buf oob =
     (case recvmsg of
        Inl err \<Rightarrow> Inl err
      | Inr (datagram, control, sa) \<Rightarrow>
          Inr (received_into buf datagram, received_into oob control, sa))"

definition ReadPacketWithKernelTimestamp ::
  "error + int \<Rightarrow> error + byte list \<times> byte list \<times> 'sa \<Rightarrow> ('sa \<Rightarrow> 'addr option)
     \<Rightarrow> Packet option \<times> Time \<times> 'addr option \<times> error option" where
  "ReadPacketWithKernelTimestamp fd recvmsg sockaddrToUDP =
     (case fd of
        Inl err \<Rightarrow> (None, zero_Time, None, Some err)
      | Inr connfd \<Rightarrow>
          (let buf = make_bytes NTPPacketSizeBytes;
               oob = make_bytes ControlHeaderSizeBytes
           in case Recvmsg recvmsg connfd buf oob of
                Inl err \<Rightarrow> (None, zero_Time, None, Some err)
              | Inr (buf', oob', sa) \<Rightarrow>
                  (let ts = Timespec_at oob' (nat (CmsgSpace 0));
                       (sec, nsec) = Timespec_Unix ts;
                       hwRxTime = time_Unix sec nsec;
                       (packet, err) = BytesToPacket buf';
                       remAddr = sockaddrToUDP sa
                   in (packet, hwRxTime, remAddr, err))))"

section \<open>The wire format as the specification words it\<close>

text \<open>
  Big-endian: the most significant byte comes first, so byte \<open>k\<close> of the four is the
  digit of weight \<open>256 ^ (3 - k)\<close> of the value.
\<close>

definition spec_big_endian32 :: "32 word \<Rightarrow> byte list" where
  "spec_big_endian32 v =
     [of_nat (unat v div 256 ^ 3 mod 256), of_nat (unat v div 256 ^ 2 mod 256),
      of_nat (unat v div 256 mod 256), of_nat (unat v mod 256)]"


section \<open>Facts about the codec\<close>

lemma dataSize_Packet_kinds: "dataSize Packet_kinds = 48"
  by (simp add: dataSize_def Packet_kinds_def)

lemma length_PutUint32: "length (BigEndian_PutUint32 v) = 4"
  by (simp add: BigEndian_PutUint32_def)

lemma length_encoder_value: "length (encoder_value p) = 48"
  by (simp add: encoder_value_def e_uint8_def e_int8_def e_uint32_def length_PutUint32)

lemma PutUint32_spec: "BigEndian_PutUint32 v = spec_big_endian32 v"
  unfolding BigEndian_PutUint32_def spec_big_endian32_def
  by (simp add: word_unat_eq_iff unat_of_nat drop_bit_eq_div unat_div unsigned_ucast_eq
      take_bit_eq_mod)

lemma Uint32_PutUint32: "BigEndian_Uint32 (BigEndian_PutUint32 v) = v"
proof (rule bit_word_eqI)
  fix n :: nat
  assume "n < LENGTH(32)"
  then have "n < 32" by simp
  then consider "n < 8" | "8 \<le> n" "n < 16" | "16 \<le> n" "n < 24" | "24 \<le> n" "n < 32"
    by linarith
  then show "bit (BigEndian_Uint32 (BigEndian_PutUint32 v)) n = bit v n"
    unfolding BigEndian_Uint32_def BigEndian_PutUint32_def
    by cases (auto simp add: bit_simps)
qed

lemma d_uint8_e_uint8: "d_uint8 (e_uint8 x @ rest) = (x, rest)"
  by (simp add: d_uint8_def e_uint8_def)

lemma d_int8_e_int8: "d_int8 (e_int8 x @ rest) = (x, rest)"
  by (simp add: d_int8_def e_int8_def d_uint8_e_uint8)

lemma d_uint32_e_uint32: "d_uint32 (e_uint32 x @ rest) = (x, rest)"
  by (simp add: d_uint32_def e_uint32_def length_PutUint32 Uint32_PutUint32)

lemma d_uint32_e_uint32_last: "d_uint32 (e_uint32 x) = (x, [])"
  using d_uint32_e_uint32 [of x "[]"] by simp

lemma decoder_encoder: "decoder_value (encoder_value p) = p"
  by (simp add: decoder_value_def encoder_value_def d_uint8_e_uint8 d_int8_e_int8
      d_uint32_e_uint32 d_uint32_e_uint32_last)

lemma decoder_zero: "decoder_value (replicate 48 0) = zero_Packet"
  by (simp add: decoder_value_def d_uint8_def d_int8_def d_uint32_def BigEndian_Uint32_def
      zero_Packet_def numeral_eq_Suc)

lemma Bytes_eq: "Bytes p = (encoder_value p, None)"
  by (simp add: Bytes_def binary_Write_def Buffer_Write_def dataSize_Packet_kinds)

lemma BytesToPacket_short:
  "length b < 48 \<Longrightarrow>
   BytesToPacket b = (Some zero_Packet, Some (if b = [] then EOF else ErrUnexpectedEOF))"
  by (simp add: BytesToPacket_def binary_Read_def dataSize_Packet_kinds io_ReadFull_def)

lemma BytesToPacket_long:
  "48 \<le> length b \<Longrightarrow> BytesToPacket b = (Some (decoder_value (take 48 b)), None)"
  by (simp add: BytesToPacket_def binary_Read_def dataSize_Packet_kinds io_ReadFull_def)

section \<open>Facts about the settings byte\<close>

lemma shl2_shr5_nat: "(x * 4 mod 256) div 32 = (x div 8) mod (8::nat)"
proof -
  have "x * 4 mod 256 = 4 * (x mod 64)"
    using mult_mod_right [of 4 x 64] by (simp add: mult.commute)
  then have "(x * 4 mod 256) div 32 = (x mod 64) div 8"
    by simp
  also have "\<dots> = (x div 8) mod 8"
    using mod_mult2_eq [of x 8 8] by simp
  finally show ?thesis .
qed

lemma shl5_shr5_nat: "(x * 32 mod 256) div 32 = x mod (8::nat)"
proof -
  have "x * 32 mod 256 = 32 * (x mod 8)"
    using mult_mod_right [of 32 x 8] by (simp add: mult.commute)
  then show ?thesis by simp
qed

lemma unat_byte_less: "unat (s::8 word) < 256"
  using unsigned_less [of s, where 'a = nat] by simp

lemma leap_eq: "unat (drop_bit 6 (s::8 word)) = spec_leap s"
  unfolding spec_leap_def using unat_byte_less [of s]
  by (simp add: drop_bit_eq_div unat_div)

lemma version_eq: "unat (drop_bit 5 (push_bit 2 (s::8 word))) = spec_version s"
  unfolding spec_version_def
  by (simp add: drop_bit_eq_div push_bit_eq_mult unat_div unat_word_ariths shl2_shr5_nat)

lemma mode_eq: "unat (drop_bit 5 (push_bit 5 (s::8 word))) = spec_mode s"
  unfolding spec_mode_def
  by (simp add: drop_bit_eq_div push_bit_eq_mult unat_div unat_word_ariths shl5_shr5_nat)

lemma ValidSettingsFormat_iff:
  "ValidSettingsFormat p \<longleftrightarrow>
     spec_leap (Settings p) \<in> {0, 3} \<and> spec_version (Settings p) \<in> {1..4}
     \<and> spec_mode (Settings p) = 3"
  unfolding ValidSettingsFormat_def Let_def liNoWarning_def liAlarmCondition_def
    vnFirst_def vnLast_def modeClient_def
  by (simp add: word_le_nat_alt word_unat_eq_iff leap_eq version_eq mode_eq) blast

section \<open>Facts about the receivers\<close>

lemma length_received_into: "length (received_into buf d) = length buf"
  by (simp add: received_into_def)

lemma received_into_make_bytes:
  "received_into (make_bytes n) d = take n d @ replicate (n - length d) 0"
  by (simp add: received_into_def make_bytes_def)

lemma BytesToPacket_received:
  "BytesToPacket (received_into (make_bytes 48) d) =
     (Some (decoder_value (received_into (make_bytes 48) d)), None)"
proof -
  have len: "length (received_into (make_bytes 48) d) = 48"
    by (simp add: length_received_into make_bytes_def)
  then have "take 48 (received_into (make_bytes 48) d) = received_into (make_bytes 48) d"
    by simp
  with BytesToPacket_long [of "received_into (make_bytes 48) d"] len show ?thesis
    by simp
qed

lemma CmsgSpace_0: "CmsgSpace 0 = 16"
  by (simp add: CmsgSpace_def cmsgAlignOf_def SizeofPtr_def SizeofCmsghdr_def)

lemma time_Unix_0: "time_Unix 0 0 = \<lparr>wall = 0, ext = 62135596800, loc = Some Local\<rparr>"
  by (simp add: time_Unix_def unixTime_def unixToInternal_def)

lemma le_int64_zeros: "le_int64 (replicate 8 0) = 0"
  by (simp add: le_int64_def word_rcat_def numeral_eq_Suc)

lemma ReadPacketWithKernelTimestamp_received:
  "ReadPacketWithKernelTimestamp (Inr connfd) (Inr (datagram, control, sa)) sockaddrToUDP =
     (fst (BytesToPacket (received_into (make_bytes 48) datagram)),
      time_Unix (le_int64 (take 8 (drop 16 (received_into (make_bytes 32) control))))
                (le_int64 (take 8 (drop 24 (received_into (make_bytes 32) control)))),
      sockaddrToUDP sa, None)"
  by (simp add: ReadPacketWithKernelTimestamp_def Recvmsg_def NTPPacketSizeBytes_def
      ControlHeaderSizeBytes_def CmsgSpace_0 Timespec_at_def Timespec_Unix_def
      BytesToPacket_received Let_def)

lemma ReadPacketWithKernelTimestamp_connFd_error:
  "ReadPacketWithKernelTimestamp (Inl e) recvmsg sockaddrToUDP =
     (None, zero_Time, None, Some e)"
  by (simp add: ReadPacketWithKernelTimestamp_def)

lemma ReadPacketWithKernelTimestamp_Recvmsg_error:
  "ReadPacketWithKernelTimestamp (Inr connfd) (Inl e) sockaddrToUDP =
     (None, zero_Time, None, Some e)"
  by (simp add: ReadPacketWithKernelTimestamp_def Recvmsg_def)

lemma timestamp_bytes_of_short_control:
  "drop 16 (received_into (make_bytes 32) (take 16 control)) = replicate 16 0"
  by (simp add: received_into_def make_bytes_def min_def)

lemma receive_without_control:
  "ReadPacketWithKernelTimestamp (Inr connfd) (Inr (replicate 48 0, [], sa)) sockaddrToUDP =
     (Some zero_Packet, \<lparr>wall = 0, ext = 62135596800, loc = Some Local\<rparr>,
      sockaddrToUDP sa, None)"
proof -
  have "received_into (make_bytes 48) (replicate 48 0) = replicate 48 0"
    by (simp add: received_into_def make_bytes_def)
  moreover have "received_into (make_bytes 32) [] = replicate 32 0"
    by (simp add: received_into_def make_bytes_def)
  ultimately show ?thesis
    by (simp add: ReadPacketWithKernelTimestamp_received BytesToPacket_long decoder_zero
        le_int64_zeros time_Unix_0)
qed

section \<open>The claims\<close>

text \<open>
  C2. Decoding the bytes that encoding a Packet produced gives the Packet back: for
  every Packet \<open>p\<close>, whatever its fields hold, \<open>BytesToPacket\<close> on the bytes of
  \<open>Bytes p\<close> returns \<open>p\<close> and a \<open>nil\<close> error.
\<close>

theorem BytesToPacket_Bytes_roundtrip:
  "BytesToPacket (fst (Bytes p)) = (Some p, None)"
  by (simp add: Bytes_eq BytesToPacket_long length_encoder_value decoder_encoder)

text \<open>
  C3. \<open>ValidSettingsFormat\<close> is true exactly when the leap indicator (bits 7-6 of the
  settings byte) is 0 or 3, the version (bits 5-3) is between 1 and 4, and the mode
  (bits 2-0) is 3. It accepts the settings bytes 0x1B and 0xE3 and rejects 0x1C and
  0x9B, whatever the other fields are; being a function of the byte, it answers on
  each of the 256 values.
\<close>

theorem ValidSettingsFormat_spec:
  "(ValidSettingsFormat p \<longleftrightarrow>
      spec_leap (Settings p) \<in> {0, 3} \<and> spec_version (Settings p) \<in> {1..4}
      \<and> spec_mode (Settings p) = 3)
   \<and> ValidSettingsFormat (p\<lparr>Settings := 0x1B\<rparr>)
   \<and> ValidSettingsFormat (p\<lparr>Settings := 0xE3\<rparr>)
   \<and> \<not> ValidSettingsFormat (p\<lparr>Settings := 0x1C\<rparr>)
   \<and> \<not> ValidSettingsFormat (p\<lparr>Settings := 0x9B\<rparr>)"
proof -
  have "ValidSettingsFormat (p\<lparr>Settings := 0x1B\<rparr>)"
    and "ValidSettingsFormat (p\<lparr>Settings := 0xE3\<rparr>)"
    and "\<not> ValidSettingsFormat (p\<lparr>Settings := 0x1C\<rparr>)"
    and "\<not> ValidSettingsFormat (p\<lparr>Settings := 0x9B\<rparr>)"
    by (simp_all add: ValidSettingsFormat_def Let_def liNoWarning_def liAlarmCondition_def
        vnFirst_def vnLast_def modeClient_def)
  with ValidSettingsFormat_iff [of p] show ?thesis
    by blast
qed

text \<open>
  C4. For every Packet, \<open>Bytes\<close> yields exactly 48 bytes: the four one-byte fields
  Settings, Stratum, Poll, Precision, then RootDelay, RootDispersion, ReferenceID and
  the four timestamps (seconds, then fraction), each 32-bit field with its most
  significant byte first.
\<close>

theorem Bytes_layout:
  "length (fst (Bytes p)) = 48
   \<and> fst (Bytes p) =
       [Settings p, Stratum p, Poll p, Precision p]
       @ spec_big_endian32 (RootDelay p) @ spec_big_endian32 (RootDispersion p)
       @ spec_big_endian32 (ReferenceID p)
       @ spec_big_endian32 (RefTimeSec p) @ spec_big_endian32 (RefTimeFrac p)
       @ spec_big_endian32 (OrigTimeSec p) @ spec_big_endian32 (OrigTimeFrac p)
       @ spec_big_endian32 (RxTimeSec p) @ spec_big_endian32 (RxTimeFrac p)
       @ spec_big_endian32 (TxTimeSec p) @ spec_big_endian32 (TxTimeFrac p)"
proof
  show "length (fst (Bytes p)) = 48"
    by (simp add: Bytes_eq length_encoder_value)
next
  show "fst (Bytes p) =
       [Settings p, Stratum p, Poll p, Precision p]
       @ spec_big_endian32 (RootDelay p) @ spec_big_endian32 (RootDispersion p)
       @ spec_big_endian32 (ReferenceID p)
       @ spec_big_endian32 (RefTimeSec p) @ spec_big_endian32 (RefTimeFrac p)
       @ spec_big_endian32 (OrigTimeSec p) @ spec_big_endian32 (OrigTimeFrac p)
       @ spec_big_endian32 (RxTimeSec p) @ spec_big_endian32 (RxTimeFrac p)
       @ spec_big_endian32 (TxTimeSec p) @ spec_big_endian32 (TxTimeFrac p)"
    by (simp add: Bytes_eq encoder_value_def e_uint8_def e_int8_def e_uint32_def
        PutUint32_spec)
qed

text \<open>
  C5. \<open>BytesToPacket\<close> returns an error for every input of fewer than 48 bytes
  (\<open>io.EOF\<close> for the empty input, \<open>io.ErrUnexpectedEOF\<close> otherwise), and for every
  input of 48 bytes or more it returns a Packet and a \<open>nil\<close> error, the same as for
  the first 48 bytes alone: nothing in the bytes is validated.
\<close>

theorem BytesToPacket_length:
  "(length buf < 48 \<longrightarrow>
      snd (BytesToPacket buf) = Some (if buf = [] then EOF else ErrUnexpectedEOF))
   \<and> (48 \<le> length buf \<longrightarrow>
      (\<exists>p. BytesToPacket buf = (Some p, None))
      \<and> BytesToPacket buf = BytesToPacket (take 48 buf))"
  by (simp add: BytesToPacket_short BytesToPacket_long)

theorem BytesToPacket_length_witness:
  "length [0x1B, 0, 4 :: byte] < 48
   \<and> snd (BytesToPacket [0x1B, 0, 4]) = Some ErrUnexpectedEOF
   \<and> 48 \<le> length (replicate 50 (7 :: byte))
   \<and> (\<exists>p. BytesToPacket (replicate 50 7) = (Some p, None))
   \<and> BytesToPacket (replicate 50 7) = BytesToPacket (take 48 (replicate 50 7))"
proof -
  have short: "length [0x1B, 0, 4 :: byte] < 48"
    by simp
  have long: "48 \<le> length (replicate 50 (7 :: byte))"
    by simp
  from short BytesToPacket_length [of "[0x1B, 0, 4]"]
  have "snd (BytesToPacket [0x1B, 0, 4]) = Some ErrUnexpectedEOF"
    by simp
  moreover from long BytesToPacket_length [of "replicate 50 7"]
  have "(\<exists>p. BytesToPacket (replicate 50 7) = (Some p, None))
      \<and> BytesToPacket (replicate 50 7) = BytesToPacket (take 48 (replicate 50 7))"
    by blast
  ultimately show ?thesis
    using short long by blast
qed

text \<open>
  C6. Decoding 48 zero bytes succeeds with a Packet whose fields are all zero, and
  \<open>ValidSettingsFormat\<close> is false on that Packet, its mode being 0.
\<close>

theorem BytesToPacket_zero_bytes:
  "BytesToPacket (replicate 48 0) =
     (Some \<lparr>Settings = 0, Stratum = 0, Poll = 0, Precision = 0,
        RootDelay = 0, RootDispersion = 0, ReferenceID = 0,
        RefTimeSec = 0, RefTimeFrac = 0, OrigTimeSec = 0, OrigTimeFrac = 0,
        RxTimeSec = 0, RxTimeFrac = 0, TxTimeSec = 0, TxTimeFrac = 0\<rparr>, None)
   \<and> \<not> ValidSettingsFormat (the (fst (BytesToPacket (replicate 48 0))))
   \<and> spec_mode (Settings (the (fst (BytesToPacket (replicate 48 0))))) = 0"
proof -
  have dec: "BytesToPacket (replicate 48 0) = (Some zero_Packet, None)"
    by (simp add: BytesToPacket_long decoder_zero)
  moreover have "\<not> ValidSettingsFormat zero_Packet"
    by (simp add: ValidSettingsFormat_def zero_Packet_def Let_def modeClient_def)
  moreover have "spec_mode (Settings zero_Packet) = 0"
    by (simp add: spec_mode_def zero_Packet_def)
  ultimately show ?thesis
    by (simp add: zero_Packet_def)
qed

text \<open>
  C9. Encoding never fails: for every Packet the error that \<open>Bytes\<close> returns is
  \<open>nil\<close>. The type has a fixed size, and the write to the in-memory buffer succeeds.
\<close>

theorem Bytes_no_error:
  "snd (Bytes p) = None"
  by (simp add: Bytes_def binary_Write_def Buffer_Write_def dataSize_Packet_kinds)

text \<open>
  C10. On an input of fewer than 48 bytes \<open>BytesToPacket\<close> returns, with its error, a
  Packet that is not \<open>nil\<close> and whose fields are all zero: no field is set from the
  bytes that were there.
\<close>

theorem BytesToPacket_short_zero:
  "length buf < 48 \<Longrightarrow>
     fst (BytesToPacket buf) = Some \<lparr>Settings = 0, Stratum = 0, Poll = 0, Precision = 0,
        RootDelay = 0, RootDispersion = 0, ReferenceID = 0,
        RefTimeSec = 0, RefTimeFrac = 0, OrigTimeSec = 0, OrigTimeFrac = 0,
        RxTimeSec = 0, RxTimeFrac = 0, TxTimeSec = 0, TxTimeFrac = 0\<rparr>
     \<and> snd (BytesToPacket buf) \<noteq> None"
  by (simp add: BytesToPacket_short zero_Packet_def)

theorem BytesToPacket_short_zero_witness:
  "length (replicate 47 (255 :: byte)) < 48
   \<and> fst (BytesToPacket (replicate 47 255)) = Some \<lparr>Settings = 0, Stratum = 0, Poll = 0, Precision = 0,
        RootDelay = 0, RootDispersion = 0, ReferenceID = 0,
        RefTimeSec = 0, RefTimeFrac = 0, OrigTimeSec = 0, OrigTimeFrac = 0,
        RxTimeSec = 0, RxTimeFrac = 0, TxTimeSec = 0, TxTimeFrac = 0\<rparr>
   \<and> snd (BytesToPacket (replicate 47 255)) \<noteq> None"
  using BytesToPacket_short_zero [of "replicate 47 255"]
  by simp


text \<open>
  C8. \<open>ReadNTPPacket\<close> decodes its own 48-byte buffer, whatever the length of the
  datagram: when the receive succeeds the call returns a Packet, the sender's address
  and a \<open>nil\<close> error, and the Packet is the decoding of the datagram's first 48
  bytes followed by zero bytes up to 48. A datagram of the single byte 0x1B gives the
  Packet with that settings byte and every other field zero.
\<close>

theorem ReadNTPPacket_decodes_padded_buffer:
  "ReadNTPPacket (Inr (datagram, addr)) =
     (fst (BytesToPacket (take 48 datagram @ replicate (48 - length datagram) 0)),
      Some addr, None)
   \<and> fst (BytesToPacket (take 48 datagram @ replicate (48 - length datagram) 0)) \<noteq> None
   \<and> snd (BytesToPacket (take 48 datagram @ replicate (48 - length datagram) 0)) = None
   \<and> ReadNTPPacket (Inr ([0x1B], addr)) =
       (Some (\<lparr>Settings = 0, Stratum = 0, Poll = 0, Precision = 0,
        RootDelay = 0, RootDispersion = 0, ReferenceID = 0,
        RefTimeSec = 0, RefTimeFrac = 0, OrigTimeSec = 0, OrigTimeFrac = 0,
        RxTimeSec = 0, RxTimeFrac = 0, TxTimeSec = 0, TxTimeFrac = 0\<rparr>\<lparr>Settings := 0x1B\<rparr>), Some addr, None)"
proof -
  have dec: "BytesToPacket (take 48 d @ replicate (48 - length d) 0) =
      (Some (decoder_value (take 48 d @ replicate (48 - length d) 0)), None)" for d
    using BytesToPacket_received [of d] by (simp add: received_into_make_bytes)
  have call: "ReadNTPPacket (Inr (d, addr)) =
      (fst (BytesToPacket (take 48 d @ replicate (48 - length d) 0)), Some addr, None)" for d
    by (simp add: ReadNTPPacket_def ReadFromUDP_def NTPPacketSizeBytes_def
        BytesToPacket_received received_into_make_bytes [symmetric])
  have "decoder_value (take 48 [0x1B] @ replicate (48 - length [0x1B :: byte]) 0) =
      \<lparr>Settings = 0, Stratum = 0, Poll = 0, Precision = 0,
        RootDelay = 0, RootDispersion = 0, ReferenceID = 0,
        RefTimeSec = 0, RefTimeFrac = 0, OrigTimeSec = 0, OrigTimeFrac = 0,
        RxTimeSec = 0, RxTimeFrac = 0, TxTimeSec = 0, TxTimeFrac = 0\<rparr>\<lparr>Settings := 0x1B\<rparr>"
    by (simp add: decoder_value_def d_uint8_def d_int8_def d_uint32_def
        BigEndian_Uint32_def numeral_eq_Suc)
  with call [of "[0x1B]"] dec [of "[0x1B]"]
  have "ReadNTPPacket (Inr ([0x1B], addr)) =
      (Some (\<lparr>Settings = 0, Stratum = 0, Poll = 0, Precision = 0,
        RootDelay = 0, RootDispersion = 0, ReferenceID = 0,
        RefTimeSec = 0, RefTimeFrac = 0, OrigTimeSec = 0, OrigTimeFrac = 0,
        RxTimeSec = 0, RxTimeFrac = 0, TxTimeSec = 0, TxTimeFrac = 0\<rparr>\<lparr>Settings := 0x1B\<rparr>), Some addr, None)"
    by simp
  with call [of datagram] dec [of datagram] show ?thesis
    by simp
qed

text \<open>
  C7. \<open>ReadPacketWithKernelTimestamp\<close> succeeds exactly when the descriptor is
  resolved and the receive succeeds; reading the timestamp has no failure in the code
  and the decoding of the 48-byte buffer cannot fail. Whenever the call returns an
  error, it returns no Packet, the zero \<open>time.Time{}\<close> and no address with it.
\<close>

theorem ReadPacketWithKernelTimestamp_all_or_nothing:
  "ReadPacketWithKernelTimestamp fd recvmsg sockaddrToUDP = (ntp, hwRxTime, remAddr, err) \<Longrightarrow>
     (err = None \<longleftrightarrow> (\<exists>connfd received. fd = Inr connfd \<and> recvmsg = Inr received))
     \<and> (err = None \<longrightarrow> ntp \<noteq> None)
     \<and> (err \<noteq> None \<longrightarrow> ntp = None \<and> hwRxTime = zero_Time \<and> remAddr = None)"
proof (cases fd)
  case (Inl e)
  assume "ReadPacketWithKernelTimestamp fd recvmsg sockaddrToUDP = (ntp, hwRxTime, remAddr, err)"
  with Inl show ?thesis
    by (auto simp add: ReadPacketWithKernelTimestamp_connFd_error)
next
  case fd: (Inr connfd)
  assume res: "ReadPacketWithKernelTimestamp fd recvmsg sockaddrToUDP = (ntp, hwRxTime, remAddr, err)"
  show ?thesis
  proof (cases recvmsg)
    case (Inl e)
    with fd res show ?thesis
      by (auto simp add: ReadPacketWithKernelTimestamp_Recvmsg_error)
  next
    case (Inr received)
    obtain datagram control sa where "received = (datagram, control, sa)"
      by (cases received)
    with Inr fd res show ?thesis
      by (auto simp add: ReadPacketWithKernelTimestamp_received BytesToPacket_received)
  qed
qed

theorem ReadPacketWithKernelTimestamp_all_or_nothing_witness:
  "ReadPacketWithKernelTimestamp (Inr 3) (Inl (OSError 11)) Some =
     (None, zero_Time, None :: unit option, Some (OSError 11))
   \<and> Some (OSError 11) \<noteq> None
   \<and> \<not> (\<exists>connfd received. (Inr 3 :: error + int) = Inr connfd
          \<and> (Inl (OSError 11) :: error + byte list \<times> byte list \<times> unit) = Inr received)
   \<and> ReadPacketWithKernelTimestamp (Inr 3) (Inr (replicate 48 0, [], ())) Some =
     (Some zero_Packet, \<lparr>wall = 0, ext = 62135596800, loc = Some Local\<rparr>, Some (), None)
   \<and> (None :: error option) = None
   \<and> Some zero_Packet \<noteq> None
   \<and> (\<exists>connfd received. (Inr 3 :: error + int) = Inr connfd
          \<and> (Inr (replicate 48 0, [], ()) :: error + byte list \<times> byte list \<times> unit)
              = Inr received)"
proof -
  have failed: "ReadPacketWithKernelTimestamp (Inr 3) (Inl (OSError 11)) Some =
      (None, zero_Time, None :: unit option, Some (OSError 11))"
    by (simp add: ReadPacketWithKernelTimestamp_def Recvmsg_def)
  have received: "ReadPacketWithKernelTimestamp (Inr 3) (Inr (replicate 48 0, [], ())) Some =
      (Some zero_Packet, \<lparr>wall = 0, ext = 62135596800, loc = Some Local\<rparr>, Some (), None)"
    by (rule receive_without_control)
  from ReadPacketWithKernelTimestamp_all_or_nothing [OF failed]
    ReadPacketWithKernelTimestamp_all_or_nothing [OF received] failed received
  show ?thesis
    by simp
qed

text \<open>
  C1, as the specification has it, fails on the code: a receive that delivers no
  control data at all still succeeds, with the timestamp \<open>time.Unix(0, 0)\<close> and no
  error.
\<close>

theorem ReadPacketWithKernelTimestamp_no_ancillary_counterexample:
  "length ([] :: byte list) < nat (CmsgSpace 0) + SizeofTimespec
   \<and> ReadPacketWithKernelTimestamp (Inr 3) (Inr (replicate 48 0, [], ())) Some =
       (Some \<lparr>Settings = 0, Stratum = 0, Poll = 0, Precision = 0,
        RootDelay = 0, RootDispersion = 0, ReferenceID = 0,
        RefTimeSec = 0, RefTimeFrac = 0, OrigTimeSec = 0, OrigTimeFrac = 0,
        RxTimeSec = 0, RxTimeFrac = 0, TxTimeSec = 0, TxTimeFrac = 0\<rparr>,
        \<lparr>wall = 0, ext = 62135596800, loc = Some Local\<rparr>, Some (), None)"
  by (simp add: receive_without_control zero_Packet_def CmsgSpace_0 SizeofTimespec_def)

text \<open>
  C1, amended. \<open>ReadPacketWithKernelTimestamp\<close> compares the length of the control
  data with nothing and has no error for it. Whenever the descriptor is resolved and
  the receive succeeds, the call returns a \<open>nil\<close> error and the timestamp that
  \<open>time.Unix\<close> makes of the two little-endian \<open>int64\<close> at bytes 16 to 23 and 24 to 31
  of its own control buffer: 32 zero bytes, overwritten from the start by the control
  data delivered. The header size 16 plus the 16 bytes of the timespec is the length
  of that buffer, so the read stays inside it; and when at most 16 bytes of control
  data were delivered the timestamp is \<open>time.Unix(0, 0)\<close>.
\<close>

theorem ReadPacketWithKernelTimestamp_unchecked_timestamp:
  "ReadPacketWithKernelTimestamp (Inr connfd) (Inr (datagram, control, sa)) sockaddrToUDP =
     (fst (BytesToPacket (received_into (make_bytes NTPPacketSizeBytes) datagram)),
      time_Unix
        (le_int64 (take 8 (drop 16
           (received_into (make_bytes ControlHeaderSizeBytes) control))))
        (le_int64 (take 8 (drop 24
           (received_into (make_bytes ControlHeaderSizeBytes) control)))),
      sockaddrToUDP sa, None)
   \<and> nat (CmsgSpace 0) = 16
   \<and> nat (CmsgSpace 0) + SizeofTimespec
       = length (received_into (make_bytes ControlHeaderSizeBytes) control)
   \<and> ReadPacketWithKernelTimestamp (Inr connfd) (Inr (datagram, take 16 control, sa))
       sockaddrToUDP =
     (fst (BytesToPacket (received_into (make_bytes NTPPacketSizeBytes) datagram)),
      time_Unix 0 0, sockaddrToUDP sa, None)"
proof -
  have "drop 24 (received_into (make_bytes 32) (take 16 control)) = replicate 8 0"
    using arg_cong [OF timestamp_bytes_of_short_control [of control], of "drop 8"]
    by simp
  then have "ReadPacketWithKernelTimestamp (Inr connfd) (Inr (datagram, take 16 control, sa))
       sockaddrToUDP =
     (fst (BytesToPacket (received_into (make_bytes NTPPacketSizeBytes) datagram)),
      time_Unix 0 0, sockaddrToUDP sa, None)"
    by (simp add: ReadPacketWithKernelTimestamp_received timestamp_bytes_of_short_control
        le_int64_zeros NTPPacketSizeBytes_def)
  then show ?thesis
    by (simp add: ReadPacketWithKernelTimestamp_received NTPPacketSizeBytes_def
        ControlHeaderSizeBytes_def CmsgSpace_0 SizeofTimespec_def length_received_into
        make_bytes_def)
qed

end
